theory Spec2Isabelle
  imports Complex_Main "HOL-Library.Word" "HOL-Library.Extended_Nat" "HOL-Library.Log_Nat"
begin

unbundle bit_operations_syntax

section \<open>Values of the program\<close>

text \<open>
  Python's unbounded integers are \<^typ>\<open>int\<close>. Strings are \<^typ>\<open>string\<close>. Every
  exception the modelled code can raise is a constructor of \<open>error\<close>, and a function
  that can raise returns \<open>error + 'a\<close>.
\<close>

datatype error =
    ArchiveException
  | ZeroDivisionError
  | KeyError
  | UnboundLocalError
  | TypeError
  | ValueError
  | AttributeError

subsection \<open>Floats\<close>

text \<open>
  A Python \<open>float\<close> is an IEEE double. A \<^typ>\<open>real\<close> in this development writes the
  double nearest to it, as a decimal literal of the source does: \<open>99.7\<close> is the float
  \<open>99.7\<close>, and \<open>to_double 99.7\<close> is the number that float holds exactly. Every
  arithmetic operation on floats takes the doubles of its operands and rounds the exact
  result to the nearest double, a tie going to the even mantissa. Results too large for a
  double (infinities, OverflowError on converting a huge integer) are outside the model.
\<close>

definition round_half_even :: "real \<Rightarrow> int" where
  "round_half_even x =
     (let f = \<lfloor>x\<rfloor>; r = x - of_int f
      in if r < 1 / 2 then f
         else if 1 / 2 < r then f + 1
         else if even f then f else f + 1)"

text \<open>\<open>ilog2 x\<close> is the exponent of the binade of a positive \<open>x\<close>: 2 ^ ilog2 x \<le> x < 2 ^ (ilog2 x + 1).\<close>

definition ilog2 :: "real \<Rightarrow> int" where
  "ilog2 x = (if 1 \<le> x then bitlen \<lfloor>x\<rfloor> - 1 else - bitlen (\<lceil>1 / x\<rceil> - 1))"

text \<open>
  The nearest double: 53 bits of mantissa, the spacing never below 2 ^ -1074 (gradual
  underflow).
\<close>

definition to_double :: "real \<Rightarrow> real" where
  "to_double x =
     (if x = 0 then 0
      else let e = max (ilog2 \<bar>x\<bar> - 52) (- 1074);
               m = round_half_even (\<bar>x\<bar> / 2 powi e)
           in sgn x * of_int m * 2 powi e)"

text \<open>\<open>a * b\<close>, \<open>a / b\<close> and \<open>a - b\<close> on floats, and \<open>a / b\<close> on two integers.\<close>

definition fmul :: "real \<Rightarrow> real \<Rightarrow> real" where
  "fmul a b = to_double (to_double a * to_double b)"

definition fdiv :: "real \<Rightarrow> real \<Rightarrow> real" where
  "fdiv a b = to_double (to_double a / to_double b)"

definition fsub :: "real \<Rightarrow> real \<Rightarrow> real" where
  "fsub a b = to_double (to_double a - to_double b)"

definition true_div :: "int \<Rightarrow> int \<Rightarrow> real" where
  "true_div a b = to_double (of_int a / of_int b)"

text \<open>
  \<open>round(x, n)\<close> on a float rounds the number the double holds to \<open>n\<close> decimals, a
  value exactly half way going to the even neighbour, and returns the float that decimal
  writes.
\<close>

definition py_round :: "real \<Rightarrow> nat \<Rightarrow> real" where
  "py_round x n = of_int (round_half_even (to_double x * 10 ^ n)) / 10 ^ n"

section \<open>Scoring engine (analyzer.py, static methods of ScreenshotAnalyzer)\<close>

text \<open>\<open>calculate_judge_rate\<close>: the true division raises when the five counts sum to 0.\<close>

definition calculate_judge_rate :: "int \<Rightarrow> int \<Rightarrow> int \<Rightarrow> int \<Rightarrow> int \<Rightarrow> error + real" where
  "calculate_judge_rate ph p g d m =
     (let total_judge = (ph + p) * 100 + g * 70 + d * 30;
          total_notes = ph + p + g + d + m
      in if total_notes = 0 then Inl ZeroDivisionError
         else Inr (py_round (true_div total_judge total_notes) 4))"

definition calculate_score :: "int \<Rightarrow> int \<Rightarrow> int \<Rightarrow> int" where
  "calculate_score perfect_high perfect great = 200 * perfect_high + 150 * perfect + 100 * great"

definition calculate_rank :: "real \<Rightarrow> string" where
  "calculate_rank judge_rate =
     (if judge_rate \<ge> 99.8 then ''SS+''
      else if judge_rate \<ge> 99.5 then ''SS''
      else if judge_rate \<ge> 99 then ''S+''
      else if judge_rate \<ge> 98 then ''S''
      else if judge_rate \<ge> 97 then ''AA+''
      else if judge_rate \<ge> 95 then ''AA''
      else if judge_rate \<ge> 90 then ''A+''
      else if judge_rate \<ge> 80 then ''A''
      else if judge_rate \<ge> 70 then ''B''
      else ''C'')"

text \<open>The dict literal \<open>rank_ratio\<close> of \<open>calculate_patch\<close>, in the order it is written.\<close>

definition rank_ratio :: "(string \<times> real) list" where
  "rank_ratio =
     [(''C'', 0.2), (''B'', 0.3), (''A'', 0.4), (''A+'', 0.5), (''AA'', 0.6),
      (''AA+'', 0.7), (''S'', 0.8), (''S+'', 0.9), (''SS'', 0.95), (''SS+'', 1)]"

text \<open>\<open>calculate_patch\<close>: \<open>rank_ratio[rank]\<close> raises KeyError on a label outside the table.\<close>

definition calculate_patch :: "int \<Rightarrow> string \<Rightarrow> bool \<Rightarrow> real \<Rightarrow> error + real" where
  "calculate_patch level rank is_plus judge =
     (if rank = ''F'' then Inr 0.0
      else case map_of rank_ratio rank of
             None \<Rightarrow> Inl KeyError
           | Some ratio \<Rightarrow>
               (let patch_base = fmul (fmul (of_int (level * 42)) (fdiv judge 100)) ratio;
                    patch_base = (if is_plus then fmul patch_base 1.02 else patch_base)
                in Inr (py_round patch_base 2)))"

definition verify_notes_count ::
  "int \<Rightarrow> int \<Rightarrow> int \<Rightarrow> int \<Rightarrow> int \<Rightarrow> int \<Rightarrow> int \<times> int \<times> int \<times> int \<times> int" where
  "verify_notes_count tot perfect_high perfect great good miss =
     (if tot = perfect_high + perfect + great + good + miss
        then (perfect_high, perfect, great, good, miss)
      else if perfect_high > tot
        then (tot - (perfect + great + good + miss), perfect, great, good, miss)
      else if perfect > tot
        then (perfect_high, tot - (perfect_high + great + good + miss), great, good, miss)
      else if great > tot
        then (perfect_high, perfect, tot - (perfect_high + perfect + good + miss), good, miss)
      else if good > tot
        then (perfect_high, perfect, great, tot - (perfect_high + perfect + great + miss), miss)
      else (perfect_high, perfect, great, good, tot - (perfect_high + perfect + great + good)))"

text \<open>The sum of a five-tuple of counts.\<close>

fun notes_sum :: "int \<times> int \<times> int \<times> int \<times> int \<Rightarrow> int" where
  "notes_sum (ph, p, g, d, m) = ph + p + g + d + m"

section \<open>Perceptual hashes\<close>

text \<open>
  A perceptual hash is the 64-bit fingerprint \<open>imagehash.phash\<close> computes;
  \<open>hex_to_hash\<close> of a 16-digit hexadecimal string is the word it denotes. The
  difference \<open>h1 - h2\<close> of two hashes is the number of bit positions where they differ.
\<close>

type_synonym image_hash = "64 word"

definition hamming :: "image_hash \<Rightarrow> image_hash \<Rightarrow> nat" where
  "hamming a b = length (filter (bit (a XOR b)) [0..<64])"

section \<open>Catalog (models.py)\<close>

record Pattern =
  pat_line :: int
  pat_difficulty :: string
  pat_level :: int
  pat_designer :: string

text \<open>A song's \<open>phash\<close> and \<open>plus_phash\<close> may be absent (None); an absent one is skipped.\<close>

record Song =
  song_id :: int
  song_title :: string
  song_artist :: string
  song_bpm :: string
  song_dlc :: string
  song_phash :: "image_hash option"
  song_plus_phash :: "image_hash option"
  song_patterns :: "Pattern list"

definition get_available_levels :: "Song \<Rightarrow> int \<Rightarrow> string \<Rightarrow> int list" where
  "get_available_levels self line difficulty =
     map pat_level (filter (\<lambda>pattern. pat_line pattern = line \<and> pat_difficulty pattern = difficulty)
                           (song_patterns self))"

section \<open>The analyzer and its song matcher (analyzer.py)\<close>

text \<open>
  A Python dict keeps its keys in insertion order; storing under a key that is present
  replaces the value where it stands.
\<close>

fun dict_set :: "('k \<times> 'v) list \<Rightarrow> 'k \<Rightarrow> 'v \<Rightarrow> ('k \<times> 'v) list" where
  "dict_set [] k v = [(k, v)]"
| "dict_set ((k', v') # kvs) k v =
     (if k' = k then (k, v) # kvs else (k', v') # dict_set kvs k v)"

record ScreenshotAnalyzer =
  song_db :: "(int \<times> Song) list"
  jacket_hash_map :: "(image_hash \<times> Song) list"

fun build_jacket_hash_map :: "Song list \<Rightarrow> (image_hash \<times> Song) list \<Rightarrow> (image_hash \<times> Song) list" where
  "build_jacket_hash_map [] hash_map = hash_map"
| "build_jacket_hash_map (s # songs) hash_map =
     (let hash_map = (case song_phash s of None \<Rightarrow> hash_map | Some h \<Rightarrow> dict_set hash_map h s);
          hash_map = (case song_plus_phash s of None \<Rightarrow> hash_map | Some h \<Rightarrow> dict_set hash_map h s)
      in build_jacket_hash_map songs hash_map)"

definition new_analyzer :: "Song list \<Rightarrow> ScreenshotAnalyzer" where
  "new_analyzer song_database =
     (let db = foldl (\<lambda>d s. dict_set d (song_id s) s) [] song_database
      in \<lparr> song_db = db, jacket_hash_map = build_jacket_hash_map (map snd db) [] \<rparr>)"

text \<open>
  \<open>get_best_match_song\<close>: the scan starts from \<open>(None, inf)\<close> and replaces the best
  match only on a strictly smaller distance, so the first minimum stays.
\<close>

fun best_match_scan ::
  "image_hash \<Rightarrow> (image_hash \<times> Song) list \<Rightarrow> Song option \<times> enat \<Rightarrow> Song option \<times> enat" where
  "best_match_scan target_hash [] best = best"
| "best_match_scan target_hash ((ref_hash, song_obj) # items) (best_match_song, min_distance) =
     (let distance = hamming target_hash ref_hash
      in if enat distance < min_distance
         then best_match_scan target_hash items (Some song_obj, enat distance)
         else best_match_scan target_hash items (best_match_song, min_distance))"

definition get_best_match_song :: "ScreenshotAnalyzer \<Rightarrow> image_hash \<Rightarrow> Song option \<times> enat" where
  "get_best_match_song self target_hash =
     best_match_scan target_hash (jacket_hash_map self) (None, \<infinity>)"

section \<open>Field recognizers (analyzer.py)\<close>

text \<open>
  The OCR engine is outside the program. A cropped region is given by what the engine
  and the hash algorithm return for it: \<open>ocr_int\<close> is the result of \<open>int(text)\<close> on the
  text read under the recognizer's digit whitelist (None when \<open>int\<close> raises ValueError),
  and \<open>crop_hash\<close> is the perceptual hash of the region.
\<close>

record Crop =
  ocr_int :: "nat option"
  crop_hash :: image_hash

text \<open>The scan the hash-table recognizers share: nearest table entry, first minimum kept.\<close>

fun closest_scan :: "image_hash \<Rightarrow> (int \<times> image_hash) list \<Rightarrow> int \<times> enat \<Rightarrow> int \<times> enat" where
  "closest_scan given_hash [] closest = closest"
| "closest_scan given_hash ((lv, compare_hash) # items) (closest_level, closest_distance) =
     (let distance = hamming compare_hash given_hash
      in if enat distance < closest_distance
         then closest_scan given_hash items (lv, enat distance)
         else closest_scan given_hash items (closest_level, closest_distance))"

definition find_level_phash :: "image_hash \<Rightarrow> int" where
  "find_level_phash given_hash =
     (let level_hash_map =
            [(5, 0xec6495db9b249293), (6, 0xeea5995a92ad9292),
             (8, 0xeead9552916d9292), (9, 0xec32954d93b2926d)];
          (closest_level, closest_distance) = closest_scan given_hash level_hash_map (0, \<infinity>)
      in if closest_distance < 5 then closest_level else 0)"

definition get_ocr_integer :: "Crop \<Rightarrow> int" where
  "get_ocr_integer img_crop =
     (case ocr_int img_crop of
        Some n \<Rightarrow> int n
      | None \<Rightarrow> find_level_phash (crop_hash img_crop))"

definition get_ocr_line :: "Crop \<Rightarrow> int" where
  "get_ocr_line img_crop = (case ocr_int img_crop of Some n \<Rightarrow> int n | None \<Rightarrow> 6)"

text \<open>
  The three select-screen recognizers try their hash table first (distance below 3),
  then the OCR'd integer, then 0. Their scan starts from distance 50.
\<close>

definition ocr_by_table :: "(int \<times> image_hash) list \<Rightarrow> Crop \<Rightarrow> int" where
  "ocr_by_table phash_map img_crop =
     (let (possible_patch, lowest_distance) = closest_scan (crop_hash img_crop) phash_map (0, 50)
      in if lowest_distance < 3 then possible_patch
         else case ocr_int img_crop of Some n \<Rightarrow> int n | None \<Rightarrow> 0)"

definition get_ocr_select_major_patch :: "Crop \<Rightarrow> int" where
  "get_ocr_select_major_patch =
     ocr_by_table
       [(609, 0xf3738c6596f2218c), (610, 0xf3738e6696a3218c), (627, 0xe151ca6616e93b9c),
        (637, 0xe1518e6216e52f9e), (641, 0xf3f19a622c93698c), (642, 0xf371966a2ad2658c),
        (661, 0xe3619a63af61619c), (670, 0xf3698c662cb3338c), (671, 0xf3698c662cf3138c),
        (676, 0xf36b8c6405f2738c)]"

definition get_ocr_select_minor_patch :: "Crop \<Rightarrow> int" where
  "get_ocr_select_minor_patch =
     ocr_by_table [(22, 0xae78d02f0dac78d2), (88, 0xaa2ad5ad52cc2cd3)]"

definition get_ocr_select_minor_judge :: "Crop \<Rightarrow> int" where
  "get_ocr_select_minor_judge =
     ocr_by_table [(5277, 0x9dc1aabc8183ec3b), (5572, 0x9be4e6ea9110ee13)]"

type_synonym rgb = "int \<times> int \<times> int"

text \<open>\<open>DIFFICULTY_COLORS\<close> in the order written, and \<open>COLOR_TOLERANCE\<close>.\<close>

definition DIFFICULTY_COLORS :: "(string \<times> rgb) list" where
  "DIFFICULTY_COLORS =
     [(''EASY'', (254, 179, 26)), (''HARD'', (252, 109, 111)),
      (''OVER'', (187, 99, 219)), (''PLUS'', (69, 81, 141))]"

definition COLOR_TOLERANCE :: int where
  "COLOR_TOLERANCE = 5"

fun color_scan :: "rgb \<Rightarrow> (string \<times> rgb) list \<Rightarrow> string" where
  "color_scan target_rgb [] = ''UNKNOWN''"
| "color_scan (r, g, b) ((difficulty, (cr, cg, cb)) # colors) =
     (if \<bar>r - cr\<bar> \<le> COLOR_TOLERANCE \<and> \<bar>g - cg\<bar> \<le> COLOR_TOLERANCE \<and> \<bar>b - cb\<bar> \<le> COLOR_TOLERANCE
      then difficulty else color_scan (r, g, b) colors)"

definition get_difficulty :: "int \<Rightarrow> int \<Rightarrow> int \<Rightarrow> string" where
  "get_difficulty r g b = color_scan (r, g, b) DIFFICULTY_COLORS"

fun is_pivot_pixel :: "rgb \<Rightarrow> string option" where
  "is_pivot_pixel (r, g, b) =
     (if \<bar>r - 231\<bar> < 5 \<and> \<bar>g - 136\<bar> < 5 \<and> \<bar>b - 40\<bar> < 5 then Some ''EASY''
      else if \<bar>r - 234\<bar> < 5 \<and> \<bar>g - 98\<bar> < 5 \<and> \<bar>b - 124\<bar> < 5 then Some ''HARD''
      else if \<bar>r - 146\<bar> < 5 \<and> \<bar>g - 115\<bar> < 5 \<and> \<bar>b - 254\<bar> < 5 then Some ''OVER''
      else if \<bar>r - 31\<bar> < 5 \<and> \<bar>g - 45\<bar> < 5 \<and> \<bar>b - 90\<bar> < 5 then Some ''PLUS''
      else None)"

fun level_hash_scan :: "image_hash \<Rightarrow> (int \<times> image_hash) list \<Rightarrow> int" where
  "level_hash_scan ph [] = 0"
| "level_hash_scan ph ((lv, level_hash) # items) =
     (if hamming ph level_hash < 3 then lv else level_hash_scan ph items)"

definition read_selected_level_by_phash :: "Crop \<Rightarrow> int" where
  "read_selected_level_by_phash img =
     level_hash_scan (crop_hash img)
       [(5, 0xea66a51ad2696497), (7, 0xeb4ae42dc42eb196), (15, 0xe87c8d02d369c697),
        (19, 0xe87a8d09cd699297), (21, 0xf26aad11d327849d)]"

datatype screen_type = SELECT | RESULT

definition determine_screen_type :: "image_hash \<Rightarrow> screen_type" where
  "determine_screen_type select_speed_hash =
     (if hamming select_speed_hash 0xc0c73d38273ed2c3 < 5 then SELECT else RESULT)"

section \<open>Analysis reports and screenshots\<close>

text \<open>\<open>AnalysisReport\<close> of models.py, without the jacket image itself.\<close>

record AnalysisReport =
  rep_song :: Song
  rep_score :: int
  rep_judge :: real
  rep_patch :: real
  rep_line :: int
  rep_difficulty :: string
  rep_level :: int
  rep_jacket_hash :: image_hash
  rep_match_distance :: enat
  rep_rank :: string
  rep_is_full_combo :: bool
  rep_is_perfect_decode :: bool
  rep_is_maximum_patch :: bool
  rep_total_notes :: int
  rep_perfect_high :: int

text \<open>
  The screenshot is taken to be an RGB image large enough for every pixel the code reads
  (the select screen reads the point (1033, 726) unscaled): on an image with another
  number of channels or a smaller one, \<open>getpixel\<close> or the unpacking of its result
  raises, and that is outside the model. The catalog's hash strings are taken as the
  64-bit words they spell.

  A screenshot is given by what the regions of \<open>ROI_CONFIG\<close> hold. For the result
  screen: the hash of the jacket and of the rank glyph, the crops of the integer
  fields, the value \<open>get_ocr_patch\<close> reads, and the pixel at \<open>difficulty_color\<close>.
\<close>

record ResultScreen =
  res_jacket :: image_hash
  res_line :: Crop
  res_level :: Crop
  res_patch :: real
  res_score :: Crop
  res_total_notes :: Crop
  res_perfect_high :: Crop
  res_perfect :: Crop
  res_great :: Crop
  res_good :: Crop
  res_miss :: Crop
  res_rank :: image_hash
  res_difficulty_color :: rgb

text \<open>
  For the select screen, \<open>sel_pivot_column y\<close> is the pixel the pivot search samples at
  reference row \<open>y\<close> and \<open>sel_level_crop y\<close> the level region derived from a pivot there.
\<close>

record SelectScreen =
  sel_jacket :: image_hash
  sel_line :: Crop
  sel_score :: Crop
  sel_major_patch :: Crop
  sel_minor_patch :: Crop
  sel_major_judge :: Crop
  sel_minor_judge :: Crop
  sel_pivot_column :: "int \<Rightarrow> rgb"
  sel_level_crop :: "int \<Rightarrow> Crop"
  sel_full_combo :: image_hash
  sel_max_patch :: rgb
  sel_rank :: image_hash

record Screenshot =
  select_speed :: image_hash
  result_rois :: ResultScreen
  select_rois :: SelectScreen

section \<open>The select-screen pipeline (\<open>_analyze_select_screen\<close>)\<close>

text \<open>\<open>len(str(n))\<close> for a non-negative integer.\<close>

function ndigits :: "nat \<Rightarrow> nat" where
  "ndigits n = (if n < 10 then 1 else Suc (ndigits (n div 10)))"
  by pat_completeness auto
termination
  by (relation "measure (\<lambda>n. n)") auto

declare ndigits.simps [simp del]

text \<open>
  \<open>float(f"{major}.{minor}")\<close> with \<open>minor\<close> left-padded with zeros to \<open>width\<close>
  characters. A negative \<open>minor\<close> gives text that \<open>float\<close> rejects.
\<close>

definition float_of_parts :: "int \<Rightarrow> int \<Rightarrow> nat \<Rightarrow> error + real" where
  "float_of_parts major minor width =
     (if minor < 0 then Inl ValueError
      else let frac = of_int minor / 10 ^ max width (ndigits (nat minor))
           in if major < 0 then Inr (- (of_int (- major) + frac))
              else Inr (of_int major + frac))"

text \<open>
  The pivot search: \<open>pivot_y\<close> runs from 627 while it is below 1040. The result is None
  when no row matches, and then \<open>level\<close> was never assigned.
\<close>

function pivot_scan ::
  "Song option \<Rightarrow> int \<Rightarrow> SelectScreen \<Rightarrow> int \<Rightarrow> error + (string \<times> int) option" where
  "pivot_scan matched_song line img pivot_y =
     (if pivot_y < 1040 then
        (case is_pivot_pixel (sel_pivot_column img pivot_y) of
           Some difficulty \<Rightarrow>
             (let difficulty = (if difficulty = ''UNKNOWN'' then ''PLUS'' else difficulty);
                  level_crop = sel_level_crop img pivot_y;
                  level = get_ocr_integer level_crop
              in case matched_song of
                   None \<Rightarrow> Inl AttributeError
                 | Some song \<Rightarrow>
                     (let available_levels = get_available_levels song line difficulty;
                          level = (if length available_levels = 1 then hd available_levels else level);
                          level = (if level \<notin> set available_levels
                                   then read_selected_level_by_phash level_crop else level)
                      in Inr (Some (difficulty, level))))
         | None \<Rightarrow> pivot_scan matched_song line img (pivot_y + 1))
      else Inr None)"
  by pat_completeness auto
termination
  by (relation "measure (\<lambda>(s, l, i, y). nat (1040 - y))") auto

declare pivot_scan.simps [simp del]

definition analyze_select_screen :: "ScreenshotAnalyzer \<Rightarrow> SelectScreen \<Rightarrow> error + AnalysisReport" where
  "analyze_select_screen self img =
     (let jacket_hash = sel_jacket img;
          (matched_song, match_distance) = get_best_match_song self jacket_hash
      in if match_distance > 5 then Inl ArchiveException
         else
          (let line = get_ocr_line (sel_line img);
               score = get_ocr_integer (sel_score img);
               major_patch = get_ocr_select_major_patch (sel_major_patch img);
               minor_patch = get_ocr_select_minor_patch (sel_minor_patch img)
           in (case float_of_parts major_patch minor_patch 2 of
                 Inl e \<Rightarrow> Inl e
               | Inr patch \<Rightarrow>
          (let major_judge = get_ocr_integer (sel_major_judge img);
               minor_judge = get_ocr_select_minor_judge (sel_minor_judge img)
           in (case float_of_parts major_judge minor_judge 4 of
                 Inl e \<Rightarrow> Inl e
               | Inr judge \<Rightarrow>
              (case pivot_scan matched_song line img 627 of
                 Inl e \<Rightarrow> Inl e
               | Inr pivot \<Rightarrow>
          (let is_full_combo = (hamming (sel_full_combo img) 0x8a82953d9d376b1a < 5);
               is_full_combo = (if judge = 100 then True else is_full_combo);
               is_perfect_decode = (judge = 100);
               (mr, mg, mb) = sel_max_patch img;
               is_max_patch = ((abs (mr - 200) < 5) \<and> (abs (mg - 111) < 5) \<and> (abs (mb - 254) < 5));
               rank = calculate_rank judge;
               rank = (if hamming (sel_rank img) 0xbb604083cfda63a7 < 5 then ''F'' else rank)
           in (case pivot of
                 None \<Rightarrow> Inl UnboundLocalError
               | Some (difficulty, level) \<Rightarrow>
                  (case matched_song of
                     None \<Rightarrow> Inl AttributeError
                   | Some song \<Rightarrow>
                       Inr \<lparr> rep_song = song, rep_score = score, rep_judge = judge,
                             rep_patch = patch, rep_line = line, rep_difficulty = difficulty,
                             rep_level = level, rep_jacket_hash = jacket_hash,
                             rep_match_distance = match_distance, rep_rank = rank,
                             rep_is_full_combo = is_full_combo,
                             rep_is_perfect_decode = is_perfect_decode,
                             rep_is_maximum_patch = is_max_patch,
                             rep_total_notes = 0, rep_perfect_high = 0 \<rparr>)))))))))"

section \<open>The result-screen pipeline (\<open>extract_info\<close>)\<close>

text \<open>
  The part of \<open>extract_info\<close> that follows the screen classification. The rating is
  computed from \<open>level_int\<close> as it stands when \<open>calculate_patch\<close> is called; the catalog
  override of \<open>level_int\<close> comes after that call.
\<close>

definition analyze_result_screen :: "ScreenshotAnalyzer \<Rightarrow> ResultScreen \<Rightarrow> error + AnalysisReport" where
  "analyze_result_screen self img =
     (let jacket_hash = res_jacket img;
          (matched_song, match_distance) = get_best_match_song self jacket_hash
      in if match_distance > 5 then Inl ArchiveException
         else
          (let lines = get_ocr_line (res_line img);
               level_ocr = get_ocr_integer (res_level img);
               patch_ocr = res_patch img;
               score_ocr = get_ocr_integer (res_score img);
               total_notes = get_ocr_integer (res_total_notes img);
               perfect_high = get_ocr_integer (res_perfect_high img);
               perfect = get_ocr_integer (res_perfect img);
               great = get_ocr_integer (res_great img);
               good = get_ocr_integer (res_good img);
               miss = get_ocr_integer (res_miss img);
               rank_hash = res_rank img;
               (perfect_high, perfect, great, good, miss) =
                  verify_notes_count total_notes perfect_high perfect great good miss;
               (r, g, b) = res_difficulty_color img;
               difficulty_str = get_difficulty r g b;
               is_plus_difficulty = (difficulty_str = ''PLUS'')
           in (case calculate_judge_rate perfect_high perfect great good miss of
                 Inl e \<Rightarrow> Inl e
               | Inr calculated_judge_rate \<Rightarrow>
          (let calculated_score = calculate_score perfect_high perfect great;
               calculated_rank = calculate_rank calculated_judge_rate;
               calculated_rank =
                 (if hamming 0xa3636e1f941a1736 rank_hash < 5 then ''F'' else calculated_rank);
               level_int = level_ocr
           in (case calculate_patch level_int calculated_rank is_plus_difficulty calculated_judge_rate of
                 Inl e \<Rightarrow> Inl e
               | Inr calculated_patch \<Rightarrow>
              (case matched_song of
                 None \<Rightarrow> Inl AttributeError
               | Some song \<Rightarrow>
          (let available_levels = get_available_levels song lines difficulty_str;
               level_int = (if length available_levels = 1 then hd available_levels else level_int);
               is_full_combo = (miss = 0);
               is_perfect_decode = (calculated_judge_rate = 100)
           in if is_perfect_decode \<and> total_notes = 0 then Inl ZeroDivisionError
              else
          (let is_maximum_patch =
                 (is_perfect_decode \<and> true_div perfect_high total_notes \<ge> to_double 0.98);
               patch_distance = fsub patch_ocr calculated_patch;
               calculated_patch =
                 (if - to_double 0.1 \<le> patch_distance \<and> patch_distance \<le> to_double 0.1
                  then patch_ocr else calculated_patch);
               calculated_patch = (if is_perfect_decode then patch_ocr else calculated_patch)
           in Inr \<lparr> rep_song = song, rep_score = calculated_score,
                    rep_judge = calculated_judge_rate, rep_patch = calculated_patch,
                    rep_line = lines, rep_difficulty = difficulty_str, rep_level = level_int,
                    rep_jacket_hash = jacket_hash, rep_match_distance = match_distance,
                    rep_rank = calculated_rank, rep_is_full_combo = is_full_combo,
                    rep_is_perfect_decode = is_perfect_decode,
                    rep_is_maximum_patch = is_maximum_patch,
                    rep_total_notes = total_notes, rep_perfect_high = perfect_high \<rparr>))))))))"

text \<open>
  \<open>extract_info\<close>. With no image (a missing file, an empty clipboard) the code builds
  \<open>AnalysisReport(song_name=...)\<close>, a call the constructor rejects with TypeError.
\<close>

definition extract_info :: "ScreenshotAnalyzer \<Rightarrow> Screenshot option \<Rightarrow> error + AnalysisReport" where
  "extract_info self image_opt =
     (case image_opt of
        None \<Rightarrow> Inl TypeError
      | Some img \<Rightarrow>
          (case determine_screen_type (select_speed img) of
             SELECT \<Rightarrow> analyze_select_screen self (select_rois img)
           | RESULT \<Rightarrow> analyze_result_screen self (result_rois img)))"

section \<open>Archive reconciler (client.py)\<close>

text \<open>
  \<open>DecodeResult\<close> of models.py. A point in time is a number of seconds, and the
  difference of two of them is a \<open>timedelta\<close>, whose \<open>days\<close> and \<open>seconds\<close> are the
  quotient and the remainder by 86400.
\<close>

record DecodeResult =
  dr_song_id :: int
  dr_line :: int
  dr_difficulty :: string
  dr_level :: int
  dr_judge :: real
  dr_score :: int
  dr_patch :: real
  dr_decoded_at :: int
  dr_is_full_combo :: bool
  dr_is_max_patch :: bool

text \<open>
  The archive key is the text \<open>f"{song_id}|{line}|{difficulty}|{level}"\<close>; the model
  keeps the four parts it is built from.
\<close>

type_synonym archive_key = "int \<times> int \<times> string \<times> int"

text \<open>The body of the sync request, \<open>AnalysisReport.json()\<close>.\<close>

record ReportJson =
  js_song_id :: int
  js_line :: int
  js_difficulty :: string
  js_level :: int
  js_judge :: real
  js_score :: int
  js_patch :: real
  js_is_full_combo :: bool
  js_is_max_patch :: bool

definition report_json :: "AnalysisReport \<Rightarrow> ReportJson" where
  "report_json self =
     \<lparr> js_song_id = song_id (rep_song self), js_line = rep_line self,
       js_difficulty = rep_difficulty self, js_level = rep_level self,
       js_judge = rep_judge self, js_score = rep_score self, js_patch = rep_patch self,
       js_is_full_combo = rep_is_full_combo self,
       js_is_max_patch = rep_is_maximum_patch self \<rparr>"

text \<open>What a line of the log says, by its content rather than its wording.\<close>

datatype badge = NoBadge | FullCombo | PerfectDecode | MaximumPatch

datatype log_line =
    AnalysisComplete
  | WarnMatchDistance enat
  | WarnLevelNotRegistered int
  | NotUpdated string int string int int int
  | BestJudge real badge
  | BestScore int
  | BestPatch real
  | Updated string int string int
  | JudgeChange real badge real badge real
  | ScoreChange int int int
  | PatchChange real real real
  | UntilMaxPatch int

text \<open>
  The state the reconciler works on: the archive, the requests posted to
  \<open>update_archive\<close> so far, and the log.
\<close>

record Client =
  archive :: "archive_key \<rightharpoonup> DecodeResult"
  posted :: "ReportJson list"
  log_text :: "log_line list"

definition log_message :: "log_line \<Rightarrow> Client \<Rightarrow> Client" where
  "log_message msg self = self\<lparr> log_text := log_text self @ [msg] \<rparr>"

definition report_key :: "AnalysisReport \<Rightarrow> archive_key" where
  "report_key report =
     (song_id (rep_song report), rep_line report, rep_difficulty report, rep_level report)"

text \<open>The zero-valued record that \<open>archive.get\<close> falls back to.\<close>

definition placeholder :: "AnalysisReport \<Rightarrow> int \<Rightarrow> DecodeResult" where
  "placeholder report now =
     \<lparr> dr_song_id = song_id (rep_song report), dr_line = rep_line report,
       dr_difficulty = rep_difficulty report, dr_level = rep_level report,
       dr_judge = 0.0, dr_score = 0, dr_patch = 0.0, dr_decoded_at = now,
       dr_is_full_combo = False, dr_is_max_patch = False \<rparr>"

text \<open>
  \<open>log_higher_score_and_report\<close>; \<open>now\<close> is the clock when \<open>decoded_at\<close> is set.
\<close>

definition log_higher_score_and_report ::
  "int \<Rightarrow> AnalysisReport \<Rightarrow> DecodeResult \<Rightarrow> Client \<Rightarrow> Client" where
  "log_higher_score_and_report now new_archive existing_archive self =
     (let self = log_message (Updated (song_title (rep_song new_archive)) (rep_line new_archive)
                    (rep_difficulty new_archive) (rep_level new_archive)) self;
          old_badge = (if dr_judge existing_archive = 100 then PerfectDecode
                       else if dr_is_full_combo existing_archive then FullCombo else NoBadge);
          new_badge = (if rep_is_maximum_patch new_archive then MaximumPatch
                       else if rep_is_perfect_decode new_archive then PerfectDecode
                       else if rep_is_full_combo new_archive then FullCombo else NoBadge);
          djudge = py_round (fsub (rep_judge new_archive) (dr_judge existing_archive)) 4;
          self = log_message (JudgeChange (dr_judge existing_archive) old_badge
                    (rep_judge new_archive) new_badge djudge) self;
          dscore = rep_score new_archive - dr_score existing_archive;
          self = log_message (ScoreChange (dr_score existing_archive) (rep_score new_archive) dscore) self;
          dpatch = py_round (fsub (rep_patch new_archive) (dr_patch existing_archive)) 2;
          self = log_message (PatchChange (dr_patch existing_archive) (rep_patch new_archive) dpatch) self;
          self = (if rep_is_perfect_decode new_archive \<and> \<not> rep_total_notes new_archive = 0
                     \<and> \<not> rep_is_maximum_patch new_archive
                  then (let theoretical_perfect_high = \<lceil>fmul (of_int (rep_total_notes new_archive)) 0.98\<rceil>;
                            need_perfect_high = theoretical_perfect_high - rep_perfect_high new_archive
                        in log_message (UntilMaxPatch need_perfect_high) self)
                  else self);
          self = self\<lparr> posted := posted self @ [report_json new_archive] \<rparr>;
          archive_key = report_key new_archive;
          internal_archive = (case archive self archive_key of
                                Some d \<Rightarrow> d
                              | None \<Rightarrow> placeholder new_archive now);
          internal_archive = internal_archive\<lparr> dr_judge := rep_judge new_archive \<rparr>;
          internal_archive = internal_archive\<lparr> dr_score := rep_score new_archive \<rparr>;
          internal_archive = internal_archive\<lparr> dr_patch := rep_patch new_archive \<rparr>;
          internal_archive = internal_archive\<lparr> dr_decoded_at := now \<rparr>;
          internal_archive = internal_archive\<lparr> dr_is_full_combo := rep_is_full_combo new_archive \<rparr>;
          internal_archive = internal_archive\<lparr> dr_is_max_patch := rep_is_maximum_patch new_archive \<rparr>
      in self\<lparr> archive := (archive self)(archive_key \<mapsto> internal_archive) \<rparr>)"

text \<open>The end of \<open>update_display\<close>, reached when no branch of the comparison returned.\<close>

definition log_not_better :: "int \<Rightarrow> AnalysisReport \<Rightarrow> DecodeResult \<Rightarrow> Client \<Rightarrow> Client" where
  "log_not_better utc_now report existing_archive self =
     (let dt = utc_now - dr_decoded_at existing_archive;
          dt_days = dt div 86400;
          dt_seconds = dt mod 86400;
          self = log_message (NotUpdated (song_title (rep_song report)) (rep_line report)
                    (rep_difficulty report) (rep_level report) dt_days (dt_seconds div 3600)) self;
          best_badge = (if dr_is_max_patch existing_archive then MaximumPatch
                        else if dr_judge existing_archive = 100 then PerfectDecode
                        else if dr_is_full_combo existing_archive then FullCombo else NoBadge);
          self = log_message (BestJudge (dr_judge existing_archive) best_badge) self;
          self = log_message (BestScore (dr_score existing_archive)) self
      in log_message (BestPatch (dr_patch existing_archive)) self)"

text \<open>
  \<open>self.archive.get(archive_key, DecodeResult(...))\<close>: the stored record, or the
  zero-valued one when the key is absent.
\<close>

definition existing_record :: "int \<Rightarrow> AnalysisReport \<Rightarrow> Client \<Rightarrow> DecodeResult" where
  "existing_record utc_now report self =
     (case archive self (report_key report) of
        Some d \<Rightarrow> d
      | None \<Rightarrow> placeholder report utc_now)"

text \<open>
  \<open>update_display\<close> from "Compare to user's archive" on: \<open>utc_now\<close> is the clock read
  there and \<open>later\<close> the clock read while the record is overwritten.
\<close>

definition compare_to_archive :: "int \<Rightarrow> int \<Rightarrow> AnalysisReport \<Rightarrow> Client \<Rightarrow> Client" where
  "compare_to_archive utc_now later report self =
     (let existing_archive = existing_record utc_now report self
      in if rep_judge report > dr_judge existing_archive
           then log_higher_score_and_report later report existing_archive self
         else if rep_judge report = dr_judge existing_archive
           then (if rep_score report > dr_score existing_archive
                   then log_higher_score_and_report later report existing_archive self
                 else if rep_score report = dr_score existing_archive
                   then (if rep_is_full_combo report \<and> \<not> dr_is_full_combo existing_archive
                           then log_higher_score_and_report later report existing_archive self
                         else log_not_better utc_now report existing_archive self)
                 else log_not_better utc_now report existing_archive self)
         else log_not_better utc_now report existing_archive self)"

text \<open>The log lines of \<open>update_display\<close> that precede the comparison.\<close>

definition log_header :: "AnalysisReport \<Rightarrow> Client \<Rightarrow> Client" where
  "log_header report self =
     (let self = log_message AnalysisComplete self;
          self = (if rep_match_distance report > 5
                  then log_message (WarnMatchDistance (rep_match_distance report)) self else self)
      in if rep_level report \<notin> set (get_available_levels (rep_song report)
                                        (rep_line report) (rep_difficulty report))
         then log_message (WarnLevelNotRegistered (rep_level report)) self else self)"

text \<open>\<open>update_display\<close>, without the widgets it redraws.\<close>

definition update_display :: "int \<Rightarrow> int \<Rightarrow> AnalysisReport \<Rightarrow> Client \<Rightarrow> Client" where
  "update_display utc_now later report self =
     compare_to_archive utc_now later report (log_header report self)"

section \<open>The specification's own notions\<close>

text \<open>
  The note-count repair as the specification words it: when the five tiers do not sum to
  the total, the first tier in the order top-tier-high, top-tier, mid-tier, low-tier, miss
  that exceeds the total is recomputed as the total minus the other four, and the miss
  tier when none does.
\<close>

fun notes_list :: "int \<times> int \<times> int \<times> int \<times> int \<Rightarrow> int list" where
  "notes_list (ph, p, g, d, m) = [ph, p, g, d, m]"

fun first_exceeding :: "int \<Rightarrow> int list \<Rightarrow> nat option" where
  "first_exceeding tot [] = None"
| "first_exceeding tot (x # xs) =
     (if x > tot then Some 0 else map_option Suc (first_exceeding tot xs))"

definition repair_spec :: "int \<Rightarrow> int list \<Rightarrow> int list" where
  "repair_spec tot tiers =
     (if sum_list tiers = tot then tiers
      else let i = (case first_exceeding tot tiers of Some i \<Rightarrow> i | None \<Rightarrow> 4)
           in tiers[i := tot - (sum_list tiers - tiers ! i)])"

text \<open>
  The place of a rank label on the ladder, lowest first: its position among the keys of
  \<open>rank_ratio\<close>, which the code lists from C up to SS+.
\<close>

fun index_of :: "'a \<Rightarrow> 'a list \<Rightarrow> nat" where
  "index_of x [] = 0"
| "index_of x (y # ys) = (if x = y then 0 else Suc (index_of x ys))"

definition rank_order :: "string \<Rightarrow> nat" where
  "rank_order rank = index_of rank (map fst rank_ratio)"

text \<open>
  The specification's comparison order of the reconciler: higher accuracy; equal accuracy
  and higher score; equal accuracy and score, full combo where the stored record has none.
\<close>

definition spec_wins :: "AnalysisReport \<Rightarrow> DecodeResult \<Rightarrow> bool" where
  "spec_wins new existing =
     (rep_judge new > dr_judge existing
      \<or> (rep_judge new = dr_judge existing \<and> rep_score new > dr_score existing)
      \<or> (rep_judge new = dr_judge existing \<and> rep_score new = dr_score existing
           \<and> rep_is_full_combo new \<and> \<not> dr_is_full_combo existing))"

text \<open>The stored record's summary and the time since it was set, as the log reports them.\<close>

definition stored_summary :: "int \<Rightarrow> AnalysisReport \<Rightarrow> DecodeResult \<Rightarrow> log_line list" where
  "stored_summary utc_now report e =
     [NotUpdated (song_title (rep_song report)) (rep_line report) (rep_difficulty report)
        (rep_level report) ((utc_now - dr_decoded_at e) div 86400)
        ((utc_now - dr_decoded_at e) mod 86400 div 3600),
      BestJudge (dr_judge e)
        (if dr_is_max_patch e then MaximumPatch
         else if dr_judge e = 100 then PerfectDecode
         else if dr_is_full_combo e then FullCombo else NoBadge),
      BestScore (dr_score e),
      BestPatch (dr_patch e)]"

text \<open>The jacket hash an analysis matches against the catalog: that of the screen it is.\<close>

definition jacket_of :: "Screenshot \<Rightarrow> image_hash" where
  "jacket_of img =
     (case determine_screen_type (select_speed img) of
        SELECT \<Rightarrow> sel_jacket (select_rois img)
      | RESULT \<Rightarrow> res_jacket (result_rois img))"

section \<open>Concrete inputs\<close>

text \<open>A catalog of one song with a single 6-line HARD pattern of level 15.\<close>

definition demo_song :: Song where
  "demo_song =
     \<lparr> song_id = 1, song_title = ''title'', song_artist = ''artist'', song_bpm = ''150'',
       song_dlc = ''base'', song_phash = Some 0, song_plus_phash = None,
       song_patterns =
         [\<lparr> pat_line = 6, pat_difficulty = ''HARD'', pat_level = 15,
            pat_designer = ''designer'' \<rparr>] \<rparr>"

definition demo_analyzer :: ScreenshotAnalyzer where
  "demo_analyzer = new_analyzer [demo_song]"

text \<open>
  A region the OCR cannot read and whose hash is far from every table entry, and a
  region that reads as the number \<open>n\<close>.
\<close>

definition unreadable :: Crop where
  "unreadable = \<lparr> ocr_int = None, crop_hash = 0 \<rparr>"

definition reads :: "nat \<Rightarrow> Crop" where
  "reads n = \<lparr> ocr_int = Some n, crop_hash = 0 \<rparr>"

definition blank_result :: ResultScreen where
  "blank_result =
     \<lparr> res_jacket = 0, res_line = unreadable, res_level = unreadable, res_patch = 0,
       res_score = unreadable, res_total_notes = unreadable, res_perfect_high = unreadable,
       res_perfect = unreadable, res_great = unreadable, res_good = unreadable,
       res_miss = unreadable, res_rank = 0, res_difficulty_color = (0, 0, 0) \<rparr>"

definition blank_select :: SelectScreen where
  "blank_select =
     \<lparr> sel_jacket = 0, sel_line = unreadable, sel_score = unreadable,
       sel_major_patch = unreadable, sel_minor_patch = unreadable,
       sel_major_judge = unreadable, sel_minor_judge = unreadable,
       sel_pivot_column = (\<lambda>y. (0, 0, 0)), sel_level_crop = (\<lambda>y. unreadable),
       sel_full_combo = 0, sel_max_patch = (0, 0, 0), sel_rank = 0 \<rparr>"

text \<open>A screenshot classified as a result screen, and one classified as a select screen.\<close>

definition result_shot :: "ResultScreen \<Rightarrow> Screenshot" where
  "result_shot r = \<lparr> select_speed = 0, result_rois = r, select_rois = blank_select \<rparr>"

definition select_shot :: "SelectScreen \<Rightarrow> Screenshot" where
  "select_shot s =
     \<lparr> select_speed = 0xc0c73d38273ed2c3, result_rois = blank_result, select_rois = s \<rparr>"

text \<open>
  Result screens whose jacket is at distance 0, 5 and 6 from the song's, every other
  region unreadable.
\<close>

definition zero_shot :: Screenshot where
  "zero_shot = result_shot blank_result"

definition distance5_shot :: Screenshot where
  "distance5_shot = result_shot (blank_result \<lparr> res_jacket := 0x1f \<rparr>)"

definition distance6_shot :: Screenshot where
  "distance6_shot = result_shot (blank_result \<lparr> res_jacket := 0x3f \<rparr>)"

text \<open>A select screen with the song's jacket and no pivot pixel in the searched column.\<close>

definition no_pivot_shot :: Screenshot where
  "no_pivot_shot = select_shot blank_select"

text \<open>
  A result screen of 100 notes (99 top-tier-high, 1 mid-tier) on the HARD pattern, with
  the level region unreadable and the on-screen rating 596.7.
\<close>

definition level_shot :: Screenshot where
  "level_shot =
     result_shot (blank_result
       \<lparr> res_patch := 596.7, res_total_notes := reads 100, res_perfect_high := reads 99,
         res_perfect := reads 0, res_great := reads 1, res_good := reads 0,
         res_miss := reads 0, res_difficulty_color := (252, 109, 111) \<rparr>)"

text \<open>A stored record and two reports on its key: one ties it with a full combo, one ties it without.\<close>

definition stored_record :: DecodeResult where
  "stored_record =
     \<lparr> dr_song_id = 1, dr_line = 6, dr_difficulty = ''HARD'', dr_level = 15,
       dr_judge = 98.0, dr_score = 900000, dr_patch = 500, dr_decoded_at = 0,
       dr_is_full_combo = False, dr_is_max_patch = False \<rparr>"

definition demo_client :: Client where
  "demo_client =
     \<lparr> archive = [(1, 6, ''HARD'', 15) \<mapsto> stored_record], posted = [], log_text = [] \<rparr>"

definition combo_report :: AnalysisReport where
  "combo_report =
     \<lparr> rep_song = demo_song, rep_score = 900000, rep_judge = 98.0, rep_patch = 500,
       rep_line = 6, rep_difficulty = ''HARD'', rep_level = 15, rep_jacket_hash = 0,
       rep_match_distance = 0, rep_rank = ''S'', rep_is_full_combo = True,
       rep_is_perfect_decode = False, rep_is_maximum_patch = False,
       rep_total_notes = 0, rep_perfect_high = 0 \<rparr>"

definition tie_report :: AnalysisReport where
  "tie_report = combo_report \<lparr> rep_is_full_combo := False \<rparr>"

section \<open>Rounding to a double\<close>

lemma round_half_even_of_int: "round_half_even (of_int j) = j"
  by (simp add: round_half_even_def)

lemma round_half_even_bounds:
  assumes "of_int a \<le> x" and "x \<le> of_int b"
  shows "a \<le> round_half_even x \<and> round_half_even x \<le> b"
proof -
  have lower: "a \<le> \<lfloor>x\<rfloor>"
    using assms(1) by (simp add: le_floor_iff)
  have upper: "\<lfloor>x\<rfloor> \<le> b"
    using assms(2) by (simp add: floor_le_iff)
  have step: "\<lfloor>x\<rfloor> + 1 \<le> b" if half: "x - of_int \<lfloor>x\<rfloor> \<ge> 1 / 2"
  proof -
    have "of_int \<lfloor>x\<rfloor> < x" using half by linarith
    then have "of_int \<lfloor>x\<rfloor> < (of_int b :: real)" using assms(2) by linarith
    then have "\<lfloor>x\<rfloor> < b" by simp
    then show ?thesis by simp
  qed
  show ?thesis
    unfolding round_half_even_def Let_def using lower upper step by auto
qed

lemma int_le_pow2_real: "(n::int) \<le> 2 ^ k \<Longrightarrow> (of_int n :: real) \<le> 2 ^ k"
  by simp

lemma pow2_le_int_real: "2 ^ k \<le> (n::int) \<Longrightarrow> (2 :: real) ^ k \<le> of_int n"
  by simp

lemma bitlen_pos: "0 < n \<Longrightarrow> 1 \<le> bitlen n"
  using bitlen_eq_zero_iff [of n] bitlen_nonneg [of n] by linarith

lemma ilog2_bounds:
  assumes "0 < x"
  shows "2 powi (ilog2 x) \<le> x \<and> x < 2 powi (ilog2 x + 1)"
proof (cases "1 \<le> x")
  case True
  define n where "n = \<lfloor>x\<rfloor>"
  define k where "k = bitlen n"
  have n: "0 < n" using True by (simp add: n_def)
  have nx: "of_int n \<le> x" "x < of_int n + 1" by (simp_all add: n_def)
  from bitlen_bounds [OF n]
  have b: "2 ^ nat (k - 1) \<le> n" "n + 1 \<le> 2 ^ nat k" by (auto simp: k_def)
  have k1: "1 \<le> k" using n by (simp add: k_def bitlen_pos)
  have il: "ilog2 x = k - 1" using True by (simp add: ilog2_def n_def k_def)
  have "(2::real) ^ nat (k - 1) \<le> of_int n" using b(1) by (rule pow2_le_int_real)
  with nx(1) have "(2::real) ^ nat (k - 1) \<le> x" by linarith
  moreover have "(2::real) powi (k - 1) = 2 ^ nat (k - 1)"
    using k1 by (simp add: power_int_nonneg_exp)
  ultimately have lower: "2 powi (ilog2 x) \<le> x" by (simp add: il)
  have "(of_int (n + 1) :: real) \<le> 2 ^ nat k" using b(2) by (rule int_le_pow2_real)
  with nx(2) have "x < 2 ^ nat k" by simp
  moreover have "(2::real) powi k = 2 ^ nat k"
    using k1 by (simp add: power_int_nonneg_exp)
  ultimately have upper: "x < 2 powi (ilog2 x + 1)" by (simp add: il)
  from lower upper show ?thesis by simp
next
  case False
  define y where "y = 1 / x"
  define c where "c = \<lceil>y\<rceil>"
  define k where "k = bitlen (c - 1)"
  have y1: "1 < y" using False assms by (simp add: y_def)
  have cy: "y \<le> of_int c" "of_int c - 1 < y" by (simp_all add: c_def) linarith
  have c1: "0 < c - 1" using y1 cy(1) by linarith
  from bitlen_bounds [OF c1]
  have b: "2 ^ nat (k - 1) \<le> c - 1" "c \<le> 2 ^ nat k" by (auto simp: k_def)
  have k1: "1 \<le> k" using c1 by (simp add: k_def bitlen_pos)
  have il: "ilog2 x = - k" using False by (simp add: ilog2_def y_def c_def k_def)
  have yx: "1 / y = x" using assms by (simp add: y_def)
  have ypos: "0 < y" using y1 by simp
  have "(of_int c :: real) \<le> 2 ^ nat k" using b(2) by (rule int_le_pow2_real)
  with cy(1) have ub: "y \<le> 2 ^ nat k" by linarith
  have "1 / 2 ^ nat k \<le> 1 / y"
    using ub ypos by (simp add: frac_le)
  moreover have "(2::real) powi (- k) = 1 / 2 ^ nat k"
    using k1 by (simp add: power_int_minus power_int_nonneg_exp field_simps)
  ultimately have lower: "2 powi (ilog2 x) \<le> x" by (simp add: il yx)
  have "(2::real) ^ nat (k - 1) \<le> of_int (c - 1)" using b(1) by (rule pow2_le_int_real)
  with cy(2) have lb: "2 ^ nat (k - 1) < y" by simp
  have "1 / y < 1 / 2 ^ nat (k - 1)"
    using lb by (simp add: frac_less2)
  moreover have "(2::real) powi (- k + 1) = 1 / 2 ^ nat (k - 1)"
  proof -
    have "- k + 1 = - (k - 1)" by simp
    then have "(2::real) powi (- k + 1) = inverse (2 powi (k - 1))"
      by (simp only: power_int_minus)
    also have "\<dots> = 1 / 2 ^ nat (k - 1)"
      using k1 by (simp add: power_int_nonneg_exp field_simps)
    finally show ?thesis .
  qed
  ultimately have upper: "x < 2 powi (ilog2 x + 1)" by (simp add: il yx)
  from lower upper show ?thesis by simp
qed

lemma ilog2_less:
  assumes "0 < x" and "x < 2 powi k"
  shows "ilog2 x < k"
proof (rule ccontr)
  assume "\<not> ilog2 x < k"
  then have "k \<le> ilog2 x" by simp
  then have "(2::real) powi k \<le> 2 powi (ilog2 x)" by (rule power_int_increasing) simp
  with ilog2_bounds [OF assms(1)] assms(2) show False by linarith
qed

lemma ilog2_ge:
  assumes "0 < x" and "2 powi k \<le> x"
  shows "k \<le> ilog2 x"
proof (rule ccontr)
  assume "\<not> k \<le> ilog2 x"
  then have "ilog2 x + 1 \<le> k" by simp
  then have "(2::real) powi (ilog2 x + 1) \<le> 2 powi k" by (rule power_int_increasing) simp
  with ilog2_bounds [OF assms(1)] assms(2) show False by linarith
qed

lemma to_double_minus: "to_double (- x) = - to_double x"
  by (simp add: to_double_def Let_def sgn_if)

lemma to_double_pos:
  assumes "0 < x"
  shows "to_double x =
           of_int (round_half_even (x / 2 powi (max (ilog2 x - 52) (- 1074))))
             * 2 powi (max (ilog2 x - 52) (- 1074))"
  using assms by (simp add: to_double_def Let_def)

lemma mantissa_bounds:
  assumes "0 < x" and "ilog2 x - 52 \<le> e"
  shows "0 \<le> round_half_even (x / 2 powi e) \<and> round_half_even (x / 2 powi e) \<le> 2 ^ 53"
proof -
  have p: "(0::real) < 2 powi e" by simp
  have "x < 2 powi (ilog2 x + 1)" using ilog2_bounds [OF assms(1)] by simp
  also have "\<dots> \<le> 2 powi (e + 53)"
    using assms(2) by (intro power_int_increasing) simp_all
  also have "\<dots> = 2 powi e * 2 ^ 53" by (simp add: power_int_add)
  finally have "x / 2 powi e < 2 ^ 53" using p by (simp add: field_simps)
  then have hi: "x / 2 powi e \<le> of_int (2 ^ 53)" by simp
  have lo: "of_int 0 \<le> x / 2 powi e" using assms(1) p by simp
  from round_half_even_bounds [OF lo hi] show ?thesis .
qed

lemma to_double_scaled_int:
  assumes m: "0 < m" "m \<le> 2 ^ 53" and e: "- 1074 \<le> e"
  shows "to_double (of_int m * 2 powi e) = of_int m * 2 powi e"
proof -
  define y :: real where "y = of_int m * 2 powi e"
  have ypos: "0 < y" using m(1) by (simp add: y_def)
  define e' where "e' = max (ilog2 y - 52) (- 1074)"
  have td: "to_double y = of_int (round_half_even (y / 2 powi e')) * 2 powi e'"
    using to_double_pos [OF ypos] by (simp add: e'_def)
  have "\<exists>n. y / 2 powi e' = of_int n"
  proof (cases "m < 2 ^ 53")
    case True
    then have "(of_int m :: real) < 2 ^ 53" by (metis of_int_less_iff of_int_numeral of_int_power)
    then have "y < 2 ^ 53 * 2 powi e" by (simp add: y_def)
    also have "\<dots> = 2 powi (e + 53)" by (simp add: power_int_add)
    finally have "ilog2 y < e + 53" using ypos by (intro ilog2_less) simp_all
    then have le: "e' \<le> e" using e by (simp add: e'_def)
    have "2 powi e = 2 powi (e - e') * (2::real) powi e'"
      using power_int_add [of "2::real" "e - e'" e'] by simp
    then have "y / 2 powi e' = of_int m * 2 powi (e - e')" by (simp add: y_def)
    also have "\<dots> = of_int (m * 2 ^ nat (e - e'))"
      using le by (simp add: power_int_nonneg_exp)
    finally show ?thesis by blast
  next
    case False
    with m(2) have m53: "m = 2 ^ 53" by simp
    have yv: "y = 2 powi (e + 53)" by (simp add: y_def m53 power_int_add)
    have "e + 53 \<le> ilog2 y" using ypos by (intro ilog2_ge) (simp_all add: yv)
    moreover have "ilog2 y < e + 54"
      using ypos by (intro ilog2_less) (simp_all add: yv power_int_strict_increasing)
    ultimately have "ilog2 y = e + 53" by simp
    then have e1: "e' = e + 1" using e by (simp add: e'_def)
    have "(2::real) powi (e + 53) = 2 powi 52 * 2 powi (e + 1)"
      using power_int_add [of "2::real" 52 "e + 1"] by (simp add: add.commute)
    then have "y / 2 powi e' = 2 powi 52" by (simp add: yv e1)
    also have "\<dots> = of_int (2 ^ 52)" by simp
    finally show ?thesis by blast
  qed
  then obtain n where n: "y / 2 powi e' = of_int n" by blast
  then have "y = of_int n * 2 powi e'" by (simp add: field_simps)
  with td n show ?thesis by (simp add: round_half_even_of_int y_def)
qed

lemma to_double_idem_pos:
  assumes "0 < x"
  shows "to_double (to_double x) = to_double x"
proof -
  define e where "e = max (ilog2 x - 52) (- 1074)"
  define m where "m = round_half_even (x / 2 powi e)"
  have td: "to_double x = of_int m * 2 powi e"
    using to_double_pos [OF assms] by (simp add: e_def m_def)
  have "ilog2 x - 52 \<le> e" by (simp add: e_def)
  from mantissa_bounds [OF assms this] have mb: "0 \<le> m" "m \<le> 2 ^ 53" by (simp_all add: m_def)
  have e: "- 1074 \<le> e" by (simp add: e_def)
  show ?thesis
  proof (cases "m = 0")
    case True
    with td have z: "to_double x = 0" by simp
    show ?thesis unfolding z by (simp add: to_double_def)
  next
    case False
    with mb have "0 < m" by simp
    from to_double_scaled_int [OF this mb(2) e] show ?thesis by (simp add: td)
  qed
qed

lemma to_double_idem: "to_double (to_double x) = to_double x"
proof -
  consider "x = 0" | "0 < x" | "x < 0" by linarith
  then show ?thesis
  proof cases
    case 1
    then show ?thesis by (simp add: to_double_def)
  next
    case 2
    then show ?thesis by (rule to_double_idem_pos)
  next
    case 3
    then have "0 < - x" by simp
    from to_double_idem_pos [OF this] show ?thesis by (simp add: to_double_minus)
  qed
qed

lemma to_double_one: "to_double 1 = 1"
  by code_simp

lemma fmul_one: "fmul (to_double x) 1 = to_double x"
  by (simp add: fmul_def to_double_one to_double_idem)

section \<open>Accuracy and score\<close>

lemma judge_rate_cases:
  "calculate_judge_rate ph p g d m =
     (if ph + p + g + d + m = 0 then Inl ZeroDivisionError
      else Inr (py_round (true_div ((ph + p) * 100 + g * 70 + d * 30)
                                   (ph + p + g + d + m)) 4))"
  by (simp add: calculate_judge_rate_def Let_def)

lemma judge_rate_error: "calculate_judge_rate ph p g d m = Inl e \<Longrightarrow> e = ZeroDivisionError"
  by (simp add: judge_rate_cases split: if_splits)

text \<open>
  C3 fails on the code at two inputs of the accuracy function, whose own comment says it
  returns a percentage from 0.0 to 100.0. With all five counts 0, the defaults of the
  recognizers, the division raises ZeroDivisionError and nothing is returned. With the
  counts (8, 8, 0, 0, -6), which the note-count repair hands over for total 10 and counts
  (8, 8, 0, 0, 0), the value returned is 160.0, outside 0..100.
\<close>

theorem judge_rate_not_a_percentage:
  "calculate_judge_rate 0 0 0 0 0 = Inl ZeroDivisionError
   \<and> verify_notes_count 10 8 8 0 0 0 = (8, 8, 0, 0, -6)
   \<and> calculate_judge_rate 8 8 0 0 (-6) = Inr 160"
proof -
  have "calculate_judge_rate 8 8 0 0 (-6) = Inr 160" by code_simp
  then show ?thesis by (simp add: calculate_judge_rate_def verify_notes_count_def)
qed

section \<open>Rank\<close>

lemma rank_order_calculate_rank:
  "rank_order (calculate_rank j) =
     (if j \<ge> 99.8 then 9 else if j \<ge> 99.5 then 8 else if j \<ge> 99 then 7
      else if j \<ge> 98 then 6 else if j \<ge> 97 then 5 else if j \<ge> 95 then 4
      else if j \<ge> 90 then 3 else if j \<ge> 80 then 2 else if j \<ge> 70 then 1 else 0)"
  by (simp add: calculate_rank_def rank_order_def rank_ratio_def)

lemma rank_order_mono:
  "a \<le> b \<Longrightarrow> rank_order (calculate_rank a) \<le> rank_order (calculate_rank b)"
  unfolding rank_order_calculate_rank by (simp split: if_splits)

lemma rank_intervals:
  "(calculate_rank j = ''SS+'' \<longleftrightarrow> 99.8 \<le> j)
 \<and> (calculate_rank j = ''SS'' \<longleftrightarrow> 99.5 \<le> j \<and> j < 99.8)
 \<and> (calculate_rank j = ''S+'' \<longleftrightarrow> 99 \<le> j \<and> j < 99.5)
 \<and> (calculate_rank j = ''S'' \<longleftrightarrow> 98 \<le> j \<and> j < 99)
 \<and> (calculate_rank j = ''AA+'' \<longleftrightarrow> 97 \<le> j \<and> j < 98)
 \<and> (calculate_rank j = ''AA'' \<longleftrightarrow> 95 \<le> j \<and> j < 97)
 \<and> (calculate_rank j = ''A+'' \<longleftrightarrow> 90 \<le> j \<and> j < 95)
 \<and> (calculate_rank j = ''A'' \<longleftrightarrow> 80 \<le> j \<and> j < 90)
 \<and> (calculate_rank j = ''B'' \<longleftrightarrow> 70 \<le> j \<and> j < 80)
 \<and> (calculate_rank j = ''C'' \<longleftrightarrow> j < 70)"
  by (simp add: calculate_rank_def)

lemma rank_at_thresholds:
  "calculate_rank 99.8 = ''SS+'' \<and> calculate_rank 99.5 = ''SS'' \<and> calculate_rank 99 = ''S+''
   \<and> calculate_rank 98 = ''S'' \<and> calculate_rank 97 = ''AA+'' \<and> calculate_rank 95 = ''AA''
   \<and> calculate_rank 90 = ''A+'' \<and> calculate_rank 80 = ''A'' \<and> calculate_rank 70 = ''B''"
  by (simp add: calculate_rank_def)

lemma rank_order_ladder:
  "map rank_order [''C'', ''B'', ''A'', ''A+'', ''AA'', ''AA+'', ''S'', ''S+'', ''SS'', ''SS+'']
     = [0, 1, 2, 3, 4, 5, 6, 7, 8, 9]"
  by (simp add: rank_order_def rank_ratio_def)

text \<open>
  C5. For every accuracy the rank is the one the descending ladder gives (at least 99.8
  SS+, at least 99.5 SS, at least 99 S+, at least 98 S, at least 97 AA+, at least 95 AA,
  at least 90 A+, at least 80 A, at least 70 B, else C). Hence the rank never goes down
  when the accuracy goes up, the ranks being ordered from C (place 0) to SS+ (place 9),
  and an accuracy exactly at a threshold gets that threshold's rank.
\<close>

theorem calculate_rank_ladder:
  "((calculate_rank j = ''SS+'' \<longleftrightarrow> 99.8 \<le> j)
     \<and> (calculate_rank j = ''SS'' \<longleftrightarrow> 99.5 \<le> j \<and> j < 99.8)
     \<and> (calculate_rank j = ''S+'' \<longleftrightarrow> 99 \<le> j \<and> j < 99.5)
     \<and> (calculate_rank j = ''S'' \<longleftrightarrow> 98 \<le> j \<and> j < 99)
     \<and> (calculate_rank j = ''AA+'' \<longleftrightarrow> 97 \<le> j \<and> j < 98)
     \<and> (calculate_rank j = ''AA'' \<longleftrightarrow> 95 \<le> j \<and> j < 97)
     \<and> (calculate_rank j = ''A+'' \<longleftrightarrow> 90 \<le> j \<and> j < 95)
     \<and> (calculate_rank j = ''A'' \<longleftrightarrow> 80 \<le> j \<and> j < 90)
     \<and> (calculate_rank j = ''B'' \<longleftrightarrow> 70 \<le> j \<and> j < 80)
     \<and> (calculate_rank j = ''C'' \<longleftrightarrow> j < 70))
   \<and> (a \<le> b \<longrightarrow> rank_order (calculate_rank a) \<le> rank_order (calculate_rank b))
   \<and> map rank_order [''C'', ''B'', ''A'', ''A+'', ''AA'', ''AA+'', ''S'', ''S+'', ''SS'', ''SS+'']
        = [0, 1, 2, 3, 4, 5, 6, 7, 8, 9]
   \<and> (calculate_rank 99.8 = ''SS+'' \<and> calculate_rank 99.5 = ''SS'' \<and> calculate_rank 99 = ''S+''
        \<and> calculate_rank 98 = ''S'' \<and> calculate_rank 97 = ''AA+'' \<and> calculate_rank 95 = ''AA''
        \<and> calculate_rank 90 = ''A+'' \<and> calculate_rank 80 = ''A'' \<and> calculate_rank 70 = ''B'')"
  using rank_intervals [of j] rank_order_mono [of a b] rank_order_ladder rank_at_thresholds
  by blast

text \<open>C5 at the accuracies 79.9999 and 80: rank B (place 1) below rank A (place 2).\<close>

theorem calculate_rank_ladder_witness:
  "(79.9999 :: real) \<le> 80
   \<and> calculate_rank 79.9999 = ''B'' \<and> calculate_rank 80 = ''A''
   \<and> rank_order (calculate_rank 79.9999) \<le> rank_order (calculate_rank 80)"
  using calculate_rank_ladder [of 80 "79.9999" 80] calculate_rank_ladder [of "79.9999" "79.9999" 80]
  by simp

section \<open>Rating\<close>

lemma patch_of_F: "calculate_patch level ''F'' is_plus judge = Inr 0"
  by (simp add: calculate_patch_def)

lemma patch_of_rank_no_error:
  "calculate_patch level (calculate_rank j) is_plus judge \<noteq> Inl e"
  by (simp add: calculate_patch_def calculate_rank_def rank_ratio_def Let_def)

lemma patch_error: "calculate_patch level rank is_plus judge = Inl e \<Longrightarrow> e = KeyError"
  by (simp add: calculate_patch_def Let_def split: if_splits option.splits)

lemma rank_ratio_table:
  "map_of rank_ratio =
     [''C'' \<mapsto> 0.2, ''B'' \<mapsto> 0.3, ''A'' \<mapsto> 0.4, ''A+'' \<mapsto> 0.5, ''AA'' \<mapsto> 0.6,
      ''AA+'' \<mapsto> 0.7, ''S'' \<mapsto> 0.8, ''S+'' \<mapsto> 0.9, ''SS'' \<mapsto> 0.95, ''SS+'' \<mapsto> 1]"
  by (auto simp: rank_ratio_def fun_eq_iff)

lemma rank_in_table: "calculate_rank j \<in> set (map fst rank_ratio)"
  by (simp add: calculate_rank_def rank_ratio_def)

lemma rank_F_not_in_table: "map_of rank_ratio ''F'' = None"
  by (simp add: rank_ratio_def)

lemma patch_of_table:
  assumes "map_of rank_ratio rank = Some ratio"
  shows "calculate_patch level rank is_plus judge =
           Inr (py_round (fmul (fmul (fmul (of_int (level * 42)) (fdiv judge 100)) ratio)
                               (if is_plus then 1.02 else 1)) 2)"
proof -
  have notF: "rank \<noteq> ''F''" using assms rank_F_not_in_table by auto
  have one: "fmul (fmul (fmul (of_int (level * 42)) (fdiv judge 100)) ratio) 1
               = fmul (fmul (of_int (level * 42)) (fdiv judge 100)) ratio"
    using fmul_one [of "to_double (fmul (of_int (level * 42)) (fdiv judge 100)) * to_double ratio"]
    by (simp add: fmul_def)
  show ?thesis
    using assms notF one by (simp add: calculate_patch_def Let_def)
qed

text \<open>
  C4. For every level, flag and accuracy, and every rank of the table with its ratio
  (C 0.2, B 0.3, A 0.4, A+ 0.5, AA 0.6, AA+ 0.7, S 0.8, S+ 0.9, SS 0.95, SS+ 1), the
  rating is \<open>round(level * 42 * (accuracy / 100) * ratio * (1.02 if is_plus else 1), 2)\<close>,
  each operation being the one on floats; for rank F it is exactly 0.0 whatever the other
  inputs are. Every rank the ladder yields is in the table, and level 15 at rank SS+ and
  accuracy 100 rates 630.0. The level and the accuracy are taken of a magnitude that
  keeps the product within the range of a double.
\<close>

theorem calculate_patch_formula:
  "(\<bar>level\<bar> \<le> 10 ^ 100 \<and> \<bar>judge\<bar> \<le> 10 ^ 100 \<and> map_of rank_ratio rank = Some ratio \<longrightarrow>
      calculate_patch level rank is_plus judge =
        Inr (py_round (fmul (fmul (fmul (of_int (level * 42)) (fdiv judge 100)) ratio)
                            (if is_plus then 1.02 else 1)) 2))
   \<and> calculate_patch level ''F'' is_plus judge = Inr 0
   \<and> map_of rank_ratio =
        [''C'' \<mapsto> 0.2, ''B'' \<mapsto> 0.3, ''A'' \<mapsto> 0.4, ''A+'' \<mapsto> 0.5, ''AA'' \<mapsto> 0.6,
         ''AA+'' \<mapsto> 0.7, ''S'' \<mapsto> 0.8, ''S+'' \<mapsto> 0.9, ''SS'' \<mapsto> 0.95, ''SS+'' \<mapsto> 1]
   \<and> calculate_rank j \<in> set (map fst rank_ratio)
   \<and> calculate_patch 15 ''SS+'' False 100 = Inr 630"
proof -
  have example: "calculate_patch 15 ''SS+'' False 100 = Inr 630"
    by code_simp
  show ?thesis
    using patch_of_table [of rank ratio level is_plus judge] patch_of_F [of level is_plus judge]
      rank_ratio_table rank_in_table [of j] example
    by blast
qed

text \<open>
  C4 at level 15, rank A+, not PLUS, accuracy 90.5, where the exact product 285.075 is
  half way between two roundings: the rating is 285.07. At rank SS, PLUS and accuracy
  99.7 it is 608.64.
\<close>

theorem calculate_patch_formula_witness:
  "\<bar>15 :: int\<bar> \<le> 10 ^ 100 \<and> \<bar>90.5 :: real\<bar> \<le> 10 ^ 100
   \<and> map_of rank_ratio ''A+'' = Some 0.5
   \<and> calculate_patch 15 ''A+'' False 90.5 = Inr 285.07
   \<and> map_of rank_ratio ''SS'' = Some 0.95
   \<and> calculate_patch 15 ''SS'' True 99.7 = Inr 608.64"
proof -
  have b: "\<bar>15 :: int\<bar> \<le> 10 ^ 100" "\<bar>90.5 :: real\<bar> \<le> 10 ^ 100" "\<bar>99.7 :: real\<bar> \<le> 10 ^ 100"
    by simp_all
  have r: "map_of rank_ratio ''A+'' = Some 0.5" "map_of rank_ratio ''SS'' = Some 0.95"
    by (simp_all add: rank_ratio_def)
  have v1: "py_round (fmul (fmul (fmul (of_int (15 * 42)) (fdiv 90.5 100)) 0.5)
                          (if False then 1.02 else 1)) 2 = 285.07"
    by code_simp
  have v2: "py_round (fmul (fmul (fmul (of_int (15 * 42)) (fdiv 99.7 100)) 0.95)
                          (if True then 1.02 else 1)) 2 = 608.64"
    by code_simp
  from calculate_patch_formula [of 15 "90.5" "''A+''" "0.5" False] b r
  have c1: "calculate_patch 15 ''A+'' False 90.5 =
      Inr (py_round (fmul (fmul (fmul (of_int (15 * 42)) (fdiv 90.5 100)) 0.5)
                          (if False then 1.02 else 1)) 2)"
    by blast
  from calculate_patch_formula [of 15 "99.7" "''SS''" "0.95" True] b r
  have c2: "calculate_patch 15 ''SS'' True 99.7 =
      Inr (py_round (fmul (fmul (fmul (of_int (15 * 42)) (fdiv 99.7 100)) 0.95)
                          (if True then 1.02 else 1)) 2)"
    by blast
  from b r c1 c2 v1 v2 show ?thesis by simp
qed

section \<open>Note-count repair\<close>

lemma verify_notes_count_total:
  "verify_notes_count tot ph p g d m = (a, b, c, e, f) \<Longrightarrow> a + b + c + e + f = tot"
  by (auto simp: verify_notes_count_def split: if_splits)

text \<open>
  C6. When the five counts already sum to the total the repair returns them unchanged,
  so repairing a repaired tuple changes nothing. Otherwise it recomputes one tier, the
  first in the order top-tier-high, top-tier, mid-tier, low-tier, miss that exceeds the
  total, as the total minus the other four, and the miss tier when none exceeds it. With
  total 500 and counts (450, 40, 5, 3, 5) the miss count becomes 2 and the rest stays.
\<close>

theorem verify_notes_count_repair:
  "verify_notes_count (ph + p + g + d + m) ph p g d m = (ph, p, g, d, m)
   \<and> notes_list (verify_notes_count tot ph p g d m) = repair_spec tot [ph, p, g, d, m]
   \<and> (case verify_notes_count tot ph p g d m of
         (a, b, c, e, f) \<Rightarrow> verify_notes_count tot a b c e f)
       = verify_notes_count tot ph p g d m
   \<and> verify_notes_count 500 450 40 5 3 5 = (450, 40, 5, 3, 2)"
  by (simp add: verify_notes_count_def repair_spec_def)

text \<open>
  C10. On every branch of the note-count repair, also the final one that recomputes the
  miss count, the five counts returned sum exactly to the total. Nothing is clamped:
  with total 10 and counts (8, 8, 0, 0, 0) the miss count comes out as -6 and the sum is
  still 10.
\<close>

theorem verify_notes_count_sum:
  "notes_sum (verify_notes_count tot ph p g d m) = tot
   \<and> verify_notes_count 10 8 8 0 0 0 = (8, 8, 0, 0, -6)"
  by (simp add: verify_notes_count_def)

section \<open>Song-match acceptance\<close>

lemma float_of_parts_error: "float_of_parts major minor width = Inl e \<Longrightarrow> e = ValueError"
  by (simp add: float_of_parts_def Let_def split: if_splits)

lemma pivot_scan_error: "pivot_scan ms line img y = Inl e \<Longrightarrow> e = AttributeError"
proof (induction ms line img y rule: pivot_scan.induct)
  case (1 matched_song line img pivot_y)
  show ?case
  proof (cases "pivot_y < 1040")
    case False
    with "1.prems" show ?thesis by (simp add: pivot_scan.simps [of _ _ _ pivot_y])
  next
    case True
    show ?thesis
    proof (cases "is_pivot_pixel (sel_pivot_column img pivot_y)")
      case None
      with True "1.prems" have "pivot_scan matched_song line img (pivot_y + 1) = Inl e"
        by (simp add: pivot_scan.simps [of _ _ _ pivot_y])
      with "1.IH" True None show ?thesis by simp
    next
      case (Some dif)
      with True "1.prems" show ?thesis
        by (simp add: pivot_scan.simps [of _ _ _ pivot_y] Let_def split: option.splits)
    qed
  qed
qed

lemma pivot_scan_none:
  "(\<And>y. is_pivot_pixel (sel_pivot_column img y) = None) \<Longrightarrow>
     pivot_scan ms line img y = Inr None"
proof (induction ms line img y rule: pivot_scan.induct)
  case (1 matched_song line img pivot_y)
  then show ?case by (simp add: pivot_scan.simps [of _ _ _ pivot_y])
qed

lemma result_rejected:
  "analyze_result_screen self img = Inl ArchiveException
     \<longleftrightarrow> snd (get_best_match_song self (res_jacket img)) > 5"
proof (cases "get_best_match_song self (res_jacket img)")
  case (Pair ms mdist)
  show ?thesis
  proof (cases "mdist > 5")
    case True
    with Pair show ?thesis by (simp add: analyze_result_screen_def)
  next
    case False
    with Pair show ?thesis
      by (auto simp: analyze_result_screen_def Let_def
               split: prod.splits sum.splits option.splits
               dest: judge_rate_error patch_error)
  qed
qed

lemma select_rejected:
  "analyze_select_screen self img = Inl ArchiveException
     \<longleftrightarrow> snd (get_best_match_song self (sel_jacket img)) > 5"
proof (cases "get_best_match_song self (sel_jacket img)")
  case (Pair ms mdist)
  show ?thesis
  proof (cases "mdist > 5")
    case True
    with Pair show ?thesis by (simp add: analyze_select_screen_def)
  next
    case False
    with Pair show ?thesis
      by (auto simp: analyze_select_screen_def Let_def
               split: prod.splits sum.splits option.splits
               dest: float_of_parts_error pivot_scan_error)
  qed
qed

lemma enat_above_5: "(5 < enat n) = (6 \<le> n)"
  by (auto simp: numeral_eq_enat)

lemma demo_hash_map: "jacket_hash_map demo_analyzer = [(0, demo_song)]"
  by (simp add: demo_analyzer_def new_analyzer_def demo_song_def)

lemma demo_match_0: "get_best_match_song demo_analyzer 0 = (Some demo_song, enat 0)"
  by (simp add: get_best_match_song_def demo_hash_map hamming_def zero_enat_def)

lemma demo_match_5: "get_best_match_song demo_analyzer 0x1f = (Some demo_song, enat 5)"
proof -
  have "hamming 0x1f 0 = 5" by code_simp
  then show ?thesis by (simp add: get_best_match_song_def demo_hash_map)
qed

lemma demo_match_6: "get_best_match_song demo_analyzer 0x3f = (Some demo_song, enat 6)"
proof -
  have "hamming 0x3f 0 = 6" by code_simp
  then show ?thesis by (simp add: get_best_match_song_def demo_hash_map)
qed

lemma blank_is_result: "determine_screen_type 0 = RESULT"
  by code_simp

lemma speed_is_select: "determine_screen_type 0xc0c73d38273ed2c3 = SELECT"
  by code_simp

lemma unreadable_values:
  "get_ocr_line unreadable = 6" "get_ocr_integer unreadable = 0"
  "get_ocr_select_major_patch unreadable = 0" "get_ocr_select_minor_patch unreadable = 0"
  "get_ocr_select_minor_judge unreadable = 0"
  by code_simp+

text \<open>
  C1 fails on the code in its last part: the recognition-rejected exception is not the
  only failure of the pipeline. A result screen whose jacket is at distance 5 is accepted
  and, every count being read as 0, the analysis raises ZeroDivisionError; a select screen
  whose jacket matches exactly and whose pivot column holds no difficulty colour raises
  UnboundLocalError.
\<close>

theorem accepted_analysis_raises:
  "snd (get_best_match_song demo_analyzer (jacket_of distance5_shot)) = enat 5
   \<and> extract_info demo_analyzer (Some distance5_shot) = Inl ZeroDivisionError
   \<and> snd (get_best_match_song demo_analyzer (jacket_of no_pivot_shot)) = enat 0
   \<and> extract_info demo_analyzer (Some no_pivot_shot) = Inl UnboundLocalError"
proof -
  have j5: "jacket_of distance5_shot = 0x1f"
    by (simp add: jacket_of_def distance5_shot_def result_shot_def blank_is_result blank_result_def)
  have j0: "jacket_of no_pivot_shot = 0"
    by (simp add: jacket_of_def no_pivot_shot_def select_shot_def speed_is_select blank_select_def)
  have zero: "extract_info demo_analyzer (Some distance5_shot) = Inl ZeroDivisionError"
    by (simp add: extract_info_def distance5_shot_def result_shot_def blank_is_result
          analyze_result_screen_def blank_result_def demo_match_5 unreadable_values
          verify_notes_count_def calculate_judge_rate_def enat_above_5 Let_def)
  have p: "pivot_scan (Some demo_song) 6 blank_select 627 = Inr None"
    by (rule pivot_scan_none) (simp add: blank_select_def)
  have f: "float_of_parts 0 0 2 = Inr 0" "float_of_parts 0 0 4 = Inr 0"
    by (simp_all add: float_of_parts_def)
  have unbound: "extract_info demo_analyzer (Some no_pivot_shot) = Inl UnboundLocalError"
    by (simp add: extract_info_def no_pivot_shot_def select_shot_def speed_is_select
          analyze_select_screen_def blank_select_def demo_match_0 unreadable_values f
          p [unfolded blank_select_def] Let_def)
  from j5 j0 zero unbound show ?thesis by (simp add: demo_match_5 demo_match_0)
qed

text \<open>
  The acceptance threshold itself holds. For every analysis, of a result or of a select
  screen, the recognition-rejected exception is raised exactly when the best-match
  distance exceeds 5, so a distance of 5 or below is accepted and a distance of 6 or
  above is rejected. The rejection depends on nothing but that distance: it comes before
  any field is read or scored.
\<close>

theorem jacket_match_threshold:
  "(extract_info self (Some img) = Inl ArchiveException
      \<longleftrightarrow> snd (get_best_match_song self (jacket_of img)) > 5)
   \<and> (snd (get_best_match_song self (jacket_of img)) = enat n \<longrightarrow>
        (extract_info self (Some img) = Inl ArchiveException \<longleftrightarrow> 6 \<le> n))"
proof -
  have main: "extract_info self (Some img) = Inl ArchiveException
      \<longleftrightarrow> snd (get_best_match_song self (jacket_of img)) > 5"
    by (simp add: extract_info_def jacket_of_def result_rejected select_rejected
             split: screen_type.splits)
  then show ?thesis by (auto simp: enat_above_5)
qed

text \<open>
  The threshold at the distances 5 and 6: the screen at distance 5 is not rejected, the
  one at distance 6 is.
\<close>

theorem jacket_match_threshold_witness:
  "snd (get_best_match_song demo_analyzer (jacket_of distance5_shot)) = enat 5
   \<and> extract_info demo_analyzer (Some distance5_shot) \<noteq> Inl ArchiveException
   \<and> snd (get_best_match_song demo_analyzer (jacket_of distance6_shot)) = enat 6
   \<and> extract_info demo_analyzer (Some distance6_shot) = Inl ArchiveException"
proof -
  have j5: "jacket_of distance5_shot = 0x1f"
    by (simp add: jacket_of_def distance5_shot_def result_shot_def blank_is_result blank_result_def)
  have j6: "jacket_of distance6_shot = 0x3f"
    by (simp add: jacket_of_def distance6_shot_def result_shot_def blank_is_result blank_result_def)
  have d5: "snd (get_best_match_song demo_analyzer (jacket_of distance5_shot)) = enat 5"
    by (simp add: j5 demo_match_5)
  have d6: "snd (get_best_match_song demo_analyzer (jacket_of distance6_shot)) = enat 6"
    by (simp add: j6 demo_match_6)
  from jacket_match_threshold [of demo_analyzer distance5_shot 5] d5
  have a5: "extract_info demo_analyzer (Some distance5_shot) \<noteq> Inl ArchiveException"
    by simp
  from jacket_match_threshold [of demo_analyzer distance6_shot 6] d6
  have a6: "extract_info demo_analyzer (Some distance6_shot) = Inl ArchiveException"
    by simp
  from d5 a5 d6 a6 show ?thesis by blast
qed

section \<open>Completion of an accepted result-screen analysis\<close>

lemma best_match_scan_some:
  "(b = None \<longleftrightarrow> d = \<infinity>) \<Longrightarrow>
     (fst (best_match_scan t items (b, d)) = None
        \<longleftrightarrow> snd (best_match_scan t items (b, d)) = \<infinity>)"
  by (induction items arbitrary: b d) (auto simp: Let_def)

lemma best_match_song_some:
  "get_best_match_song self h = (ms, mdist) \<Longrightarrow> mdist \<noteq> \<infinity> \<Longrightarrow> \<exists>song. ms = Some song"
  using best_match_scan_some [of None \<infinity> h "jacket_hash_map self"]
  by (auto simp: get_best_match_song_def)

text \<open>
  Once the jacket is accepted, the result-screen analysis raises exactly when the total
  note count is read as 0, and returns a report otherwise.
\<close>

lemma result_screen_outcome:
  assumes acc: "\<not> snd (get_best_match_song self (res_jacket img)) > 5"
  shows "(analyze_result_screen self img = Inl ZeroDivisionError
            \<longleftrightarrow> get_ocr_integer (res_total_notes img) = 0)
       \<and> ((\<exists>rep. analyze_result_screen self img = Inr rep)
            \<longleftrightarrow> get_ocr_integer (res_total_notes img) \<noteq> 0)"
proof -
  obtain ms mdist where g: "get_best_match_song self (res_jacket img) = (ms, mdist)"
    by (cases "get_best_match_song self (res_jacket img)")
  with acc have nd: "\<not> mdist > 5" by simp
  then have "mdist \<noteq> \<infinity>" by (cases mdist) simp_all
  with g obtain song where ms: "ms = Some song" using best_match_song_some by blast
  obtain a b c e f where v: "verify_notes_count (get_ocr_integer (res_total_notes img))
      (get_ocr_integer (res_perfect_high img)) (get_ocr_integer (res_perfect img))
      (get_ocr_integer (res_great img)) (get_ocr_integer (res_good img))
      (get_ocr_integer (res_miss img)) = (a, b, c, e, f)"
    using prod_cases5 by blast
  from verify_notes_count_total [OF v]
  have s: "a + b + c + e + f = get_ocr_integer (res_total_notes img)" .
  obtain r gg bb where col: "res_difficulty_color img = (r, gg, bb)"
    using prod_cases3 by blast
  show ?thesis
  proof (cases "get_ocr_integer (res_total_notes img) = 0")
    case True
    then show ?thesis using g nd ms v s col
      by (simp add: analyze_result_screen_def Let_def judge_rate_cases)
  next
    case False
    then show ?thesis using g nd ms v s col
      by (auto simp: analyze_result_screen_def Let_def judge_rate_cases patch_of_F
            patch_of_rank_no_error split: sum.splits)
  qed
qed

text \<open>
  C8 fails on the code at the documented defaults. On a result screen whose jacket
  matches the catalog exactly (distance 0) and whose regions are all unreadable, every
  integer field comes back as the default 0, and the analysis, instead of returning a
  report, raises ZeroDivisionError in the accuracy computation.
\<close>

theorem zero_defaults_raise:
  "snd (get_best_match_song demo_analyzer (jacket_of zero_shot)) = enat 0
   \<and> get_ocr_integer unreadable = 0
   \<and> extract_info demo_analyzer (Some zero_shot) = Inl ZeroDivisionError"
proof -
  have j: "jacket_of zero_shot = 0"
    by (simp add: jacket_of_def zero_shot_def result_shot_def blank_is_result blank_result_def)
  have acc: "\<not> snd (get_best_match_song demo_analyzer (res_jacket blank_result)) > 5"
    by (simp add: blank_result_def demo_match_0 enat_above_5)
  have "get_ocr_integer (res_total_notes blank_result) = 0"
    by (simp add: blank_result_def unreadable_values)
  with result_screen_outcome [OF acc]
  have "analyze_result_screen demo_analyzer blank_result = Inl ZeroDivisionError" by blast
  then have "extract_info demo_analyzer (Some zero_shot) = Inl ZeroDivisionError"
    by (simp add: extract_info_def zero_shot_def result_shot_def blank_is_result)
  with j show ?thesis by (simp add: demo_match_0 unreadable_values)
qed

section \<open>The catalog's level\<close>

lemma result_level_override:
  assumes "analyze_result_screen self img = Inr rep"
    and "get_available_levels (rep_song rep) (rep_line rep) (rep_difficulty rep) = [lv]"
  shows "rep_level rep = lv"
  using assms
  by (auto simp: analyze_result_screen_def Let_def
           split: prod.splits sum.splits option.splits if_splits)

lemma pivot_scan_level:
  "pivot_scan (Some song) line img y = Inr (Some (dif, level)) \<Longrightarrow>
     get_available_levels song line dif = [lv] \<Longrightarrow> level = lv"
proof (induction "Some song" line img y rule: pivot_scan.induct)
  case (1 line img pivot_y)
  show ?case
  proof (cases "pivot_y < 1040")
    case False
    with "1.prems" show ?thesis by (simp add: pivot_scan.simps [of _ _ _ pivot_y])
  next
    case True
    show ?thesis
    proof (cases "is_pivot_pixel (sel_pivot_column img pivot_y)")
      case None
      with True "1.prems"
      have "pivot_scan (Some song) line img (pivot_y + 1) = Inr (Some (dif, level))"
        by (simp add: pivot_scan.simps [of _ _ _ pivot_y])
      with "1.hyps" True None "1.prems"(2) show ?thesis by simp
    next
      case (Some d0)
      with True "1.prems" show ?thesis
        by (auto simp: pivot_scan.simps [of _ _ _ pivot_y] Let_def split: if_splits)
    qed
  qed
qed

lemma select_level_override:
  assumes "analyze_select_screen self img = Inr rep"
    and "get_available_levels (rep_song rep) (rep_line rep) (rep_difficulty rep) = [lv]"
  shows "rep_level rep = lv"
  using assms
  by (auto simp: analyze_select_screen_def Let_def
           split: prod.splits sum.splits option.splits if_splits
           dest: pivot_scan_level)

text \<open>
  On either screen, a report whose (line, difficulty) pair has exactly one level in the
  catalog carries that level.
\<close>

lemma report_level_override:
  assumes "extract_info self (Some img) = Inr rep"
    and "get_available_levels (rep_song rep) (rep_line rep) (rep_difficulty rep) = [lv]"
  shows "rep_level rep = lv"
  using assms
  by (auto simp: extract_info_def split: screen_type.splits
           dest: result_level_override select_level_override)

text \<open>
  C7 fails on the code in its last part. On a result screen of the 6-line HARD pattern,
  for which the catalog lists the single level 15, with an unreadable level region
  (read as 0), 99 top-tier-high and 1 mid-tier note of 100 (accuracy 99.7, rank SS) and
  the on-screen rating 596.7, the report carries level 15 and rating 0.0: the rating was
  computed from the level read, 0, and not from the catalog's level, which gives 596.7.
\<close>

theorem rating_ignores_catalog_level:
  "get_available_levels demo_song 6 ''HARD'' = [15]
   \<and> extract_info demo_analyzer (Some level_shot) =
       Inr \<lparr> rep_song = demo_song, rep_score = 19900, rep_judge = 99.7, rep_patch = 0,
             rep_line = 6, rep_difficulty = ''HARD'', rep_level = 15, rep_jacket_hash = 0,
             rep_match_distance = 0, rep_rank = ''SS'', rep_is_full_combo = True,
             rep_is_perfect_decode = False, rep_is_maximum_patch = False,
             rep_total_notes = 100, rep_perfect_high = 99 \<rparr>
   \<and> calculate_patch 0 ''SS'' False 99.7 = Inr 0
   \<and> calculate_patch 15 ''SS'' False 99.7 = Inr 596.7"
proof -
  have levels: "get_available_levels demo_song 6 ''HARD'' = [15]"
    by (simp add: get_available_levels_def demo_song_def)
  have report: "extract_info demo_analyzer (Some level_shot) =
       Inr \<lparr> rep_song = demo_song, rep_score = 19900, rep_judge = 99.7, rep_patch = 0,
             rep_line = 6, rep_difficulty = ''HARD'', rep_level = 15, rep_jacket_hash = 0,
             rep_match_distance = 0, rep_rank = ''SS'', rep_is_full_combo = True,
             rep_is_perfect_decode = False, rep_is_maximum_patch = False,
             rep_total_notes = 100, rep_perfect_high = 99 \<rparr>"
    by code_simp
  have ratings: "calculate_patch 0 ''SS'' False 99.7 = Inr 0"
    "calculate_patch 15 ''SS'' False 99.7 = Inr 596.7"
    by code_simp+
  from levels report ratings show ?thesis by blast
qed

section \<open>Archive reconciler\<close>

lemma log_message_frame:
  "archive (log_message msg self) = archive self"
  "posted (log_message msg self) = posted self"
  "log_text (log_message msg self) = log_text self @ [msg]"
  by (simp_all add: log_message_def)

lemma log_header_frame:
  "archive (log_header report self) = archive self"
  "posted (log_header report self) = posted self"
  by (simp_all add: log_header_def Let_def log_message_frame)

lemma existing_record_log_header:
  "existing_record utc_now report (log_header report self) = existing_record utc_now report self"
  by (simp add: existing_record_def log_header_frame)

lemma posted_higher:
  "posted (log_higher_score_and_report now new e self) = posted self @ [report_json new]"
  by (simp add: log_higher_score_and_report_def Let_def log_message_def)

lemma log_not_better_frame:
  "archive (log_not_better utc_now report e self) = archive self"
  "posted (log_not_better utc_now report e self) = posted self"
  "log_text (log_not_better utc_now report e self) = log_text self @ stored_summary utc_now report e"
  by (simp_all add: log_not_better_def Let_def log_message_def stored_summary_def)

lemma compare_branches:
  "compare_to_archive utc_now later report self =
     (if spec_wins report (existing_record utc_now report self)
      then log_higher_score_and_report later report (existing_record utc_now report self) self
      else log_not_better utc_now report (existing_record utc_now report self) self)"
  by (auto simp: compare_to_archive_def Let_def spec_wins_def)

lemma posted_update_display:
  "posted (update_display utc_now later report self) =
     (if spec_wins report (existing_record utc_now report self)
      then posted self @ [report_json report] else posted self)"
  by (simp add: update_display_def compare_branches existing_record_log_header
        posted_higher log_not_better_frame log_header_frame)

text \<open>
  C2. The reconciler takes the winning branch, the one that posts the report to the
  server, if and only if the report beats the record it is compared with in the
  lexicographic order: strictly higher accuracy, or equal accuracy and strictly higher
  score, or equal accuracy and score with a full combo the record lacks. In particular a
  report with accuracy 98.0, score 900000 and full combo wins over a record with
  accuracy 98.0, score 900000 and no full combo.
\<close>

theorem archive_win_decision:
  "(posted (update_display utc_now later report self) = posted self @ [report_json report]
      \<longleftrightarrow> spec_wins report (existing_record utc_now report self))
   \<and> compare_to_archive utc_now later report self =
       (if spec_wins report (existing_record utc_now report self)
        then log_higher_score_and_report later report (existing_record utc_now report self) self
        else log_not_better utc_now report (existing_record utc_now report self) self)
   \<and> (dr_judge e = 98.0 \<and> dr_score e = 900000 \<and> \<not> dr_is_full_combo e
        \<and> rep_judge new = 98.0 \<and> rep_score new = 900000 \<and> rep_is_full_combo new
        \<longrightarrow> spec_wins new e)"
proof -
  have decision: "posted (update_display utc_now later report self) = posted self @ [report_json report]
      \<longleftrightarrow> spec_wins report (existing_record utc_now report self)"
    by (simp add: posted_update_display)
  have example: "dr_judge e = 98.0 \<and> dr_score e = 900000 \<and> \<not> dr_is_full_combo e
        \<and> rep_judge new = 98.0 \<and> rep_score new = 900000 \<and> rep_is_full_combo new
        \<longrightarrow> spec_wins new e"
    by (simp add: spec_wins_def)
  from decision compare_branches [of utc_now later report self] example
  show ?thesis by blast
qed

text \<open>
  C2 on the stored record (98.0, 900000, no full combo) and the report (98.0, 900000,
  full combo): the report wins and is posted.
\<close>

theorem archive_win_decision_witness:
  "existing_record 93784 combo_report demo_client = stored_record
   \<and> dr_judge stored_record = 98.0 \<and> dr_score stored_record = 900000
   \<and> \<not> dr_is_full_combo stored_record
   \<and> rep_judge combo_report = 98.0 \<and> rep_score combo_report = 900000
   \<and> rep_is_full_combo combo_report
   \<and> spec_wins combo_report stored_record
   \<and> posted (update_display 93784 93785 combo_report demo_client) = [report_json combo_report]"
proof -
  have e: "existing_record 93784 combo_report demo_client = stored_record"
    by (simp add: existing_record_def report_key_def combo_report_def demo_client_def demo_song_def)
  have fields: "dr_judge stored_record = 98.0 \<and> dr_score stored_record = 900000
      \<and> \<not> dr_is_full_combo stored_record
      \<and> rep_judge combo_report = 98.0 \<and> rep_score combo_report = 900000
      \<and> rep_is_full_combo combo_report"
    by (simp add: stored_record_def combo_report_def)
  from archive_win_decision [of 93784 93785 combo_report demo_client stored_record combo_report] fields
  have w: "spec_wins combo_report stored_record" by blast
  from archive_win_decision [of 93784 93785 combo_report demo_client stored_record combo_report] e w
  have "posted (update_display 93784 93785 combo_report demo_client)
          = posted demo_client @ [report_json combo_report]"
    by simp
  then have p: "posted (update_display 93784 93785 combo_report demo_client) = [report_json combo_report]"
    by (simp add: demo_client_def)
  from e fields w p show ?thesis by blast
qed

text \<open>
  C9. When the report does not win the comparison, the reconciler leaves the archive,
  and with it every field of the stored record, unchanged and posts nothing; it only
  appends to the log the stored record's summary and the time elapsed since it was set.
\<close>

theorem no_win_no_change:
  assumes "\<not> spec_wins report (existing_record utc_now report self)"
  shows "archive (update_display utc_now later report self) = archive self
       \<and> posted (update_display utc_now later report self) = posted self
       \<and> log_text (update_display utc_now later report self) =
           log_text (log_header report self)
             @ stored_summary utc_now report (existing_record utc_now report self)
       \<and> archive (compare_to_archive utc_now later report self) = archive self
       \<and> posted (compare_to_archive utc_now later report self) = posted self
       \<and> log_text (compare_to_archive utc_now later report self) =
           log_text self @ stored_summary utc_now report (existing_record utc_now report self)"
  using assms
  by (simp add: update_display_def compare_branches existing_record_log_header
        log_not_better_frame log_header_frame)

text \<open>
  C9 on the stored record (98.0, 900000, no full combo), set at time 0, and an equal
  report without full combo at time 93784: nothing changes, and the log says the record
  is 1 day and 2 hours old.
\<close>

theorem no_win_no_change_witness:
  "\<not> spec_wins tie_report (existing_record 93784 tie_report demo_client)
   \<and> archive (compare_to_archive 93784 93785 tie_report demo_client) = archive demo_client
   \<and> posted (compare_to_archive 93784 93785 tie_report demo_client) = []
   \<and> log_text (compare_to_archive 93784 93785 tie_report demo_client) =
       [NotUpdated ''title'' 6 ''HARD'' 15 1 2, BestJudge 98 NoBadge,
        BestScore 900000, BestPatch 500]"
proof -
  have e: "existing_record 93784 tie_report demo_client = stored_record"
    by (simp add: existing_record_def report_key_def tie_report_def combo_report_def
          demo_client_def demo_song_def)
  have lose: "\<not> spec_wins tie_report (existing_record 93784 tie_report demo_client)"
    unfolding e by (simp add: spec_wins_def tie_report_def combo_report_def stored_record_def)
  have summary: "stored_summary 93784 tie_report stored_record =
      [NotUpdated ''title'' 6 ''HARD'' 15 1 2, BestJudge 98 NoBadge,
       BestScore 900000, BestPatch 500]"
    by (simp add: stored_summary_def tie_report_def combo_report_def stored_record_def
          demo_song_def)
  from no_win_no_change [OF lose, of 93785] e summary lose
  show ?thesis by (simp add: demo_client_def)
qed

end
